theory Spec2Isabelle
  imports Main
begin

section \<open>Build configuration: environment variants\<close>

text \<open>
  \<^verbatim>\<open>getEnvironmentConfig(environment)\<close> is a JavaScript \<^verbatim>\<open>switch\<close> on its argument.
  The caller passes \<^verbatim>\<open>process.env.NODE_ENV\<close>, which is a string or \<^verbatim>\<open>undefined\<close>; the
  argument is therefore a \<open>string option\<close>, \<open>None\<close> being \<^verbatim>\<open>undefined\<close>. The
  \<^verbatim>\<open>switch\<close> compares with strict equality, so \<^verbatim>\<open>undefined\<close> matches no
  \<^verbatim>\<open>case\<close> label and falls to \<^verbatim>\<open>default\<close>, which shares its body with
  \<^verbatim>\<open>case 'production'\<close>.
\<close>

record EnvironmentConfig =
  appName :: string
  bundleIdentifier :: string

definition getEnvironmentConfig :: "string option \<Rightarrow> EnvironmentConfig" where
  "getEnvironmentConfig environment =
     (if environment = Some ''development'' then
        \<lparr>appName = ''withinstruction-dev'',
         bundleIdentifier = ''com.simform.withinstruction.dev''\<rparr>
      else if environment = Some ''preview'' then
        \<lparr>appName = ''withinstruction-preview'',
         bundleIdentifier = ''com.simform.withinstruction.preview''\<rparr>
      else
        \<lparr>appName = ''withinstruction'',
         bundleIdentifier = ''com.simform.withinstruction''\<rparr>)"

text \<open>
  \<^verbatim>\<open>defineConfig({ config })\<close> reads \<^verbatim>\<open>process.env.NODE_ENV\<close> (here the
  argument \<open>NODE_ENV\<close>), asks \<^verbatim>\<open>getEnvironmentConfig\<close> for the names and returns the
  Expo configuration object. The object spreads the incoming \<^verbatim>\<open>config\<close> first and then
  sets its own keys, so the incoming object survives only in the keys the function does not
  set: it is kept whole in the field \<open>inherited\<close>. The entries \<^verbatim>\<open>splash\<close>,
  \<^verbatim>\<open>web\<close>, \<^verbatim>\<open>plugins\<close>, \<^verbatim>\<open>experiments\<close> and \<^verbatim>\<open>extra\<close> are constant
  data apart from the ProGuard text, and are not part of this record.
\<close>

record IosConfig =
  ios_bundleIdentifier :: string
  NSCameraUsageDescription :: string

record AdaptiveIcon =
  foregroundImage :: string
  backgroundColor :: string

record AndroidConfig =
  adaptiveIcon :: AdaptiveIcon
  package :: string
  permissions :: "string list"

record 'c ExpoConfig =
  inherited :: 'c
  name :: string
  slug :: string
  version :: string
  orientation :: string
  icon :: string
  scheme :: string
  userInterfaceStyle :: string
  newArchEnabled :: bool
  ios :: IosConfig
  android :: AndroidConfig

definition defineConfig :: "string option \<Rightarrow> 'c \<Rightarrow> 'c ExpoConfig" where
  "defineConfig NODE_ENV config =
     (let APP_ENV = NODE_ENV;
          env = getEnvironmentConfig APP_ENV
      in \<lparr>inherited = config,
          name = appName env,
          slug = ''withInstruction'',
          version = ''1.0.0'',
          orientation = ''portrait'',
          icon = ''./app/assets/icons/appIcon.png'',
          scheme = ''withInstruction'',
          userInterfaceStyle = ''automatic'',
          newArchEnabled = True,
          ios = \<lparr>ios_bundleIdentifier = bundleIdentifier env,
                 NSCameraUsageDescription =
                   ''This app requires to access your photo library''\<rparr>,
          android = \<lparr>adaptiveIcon = \<lparr>foregroundImage = ''./app/assets/icons/adaptiveIcon.png'',
                                     backgroundColor = ''#ffffff''\<rparr>,
                     package = bundleIdentifier env,
                     permissions = [''CAMERA'']\<rparr>\<rparr>)"

section \<open>API configuration: data\<close>

text \<open>
  The localized messages of \<^verbatim>\<open>Strings.APIError\<close> are looked up from translation files
  through \<^verbatim>\<open>I18n.t\<close>; the texts themselves are not part of the sources, so the frozen
  object is a record whose ten fields are left to the caller.
\<close>

record APIError =
  somethingWentWrong :: string
  networkError :: string
  serverError :: string
  timeoutError :: string
  clientError :: string
  cancelError :: string
  connectionError :: string
  unexpectedError :: string
  cancelSagaError :: string
  error :: string

text \<open>
  \<^verbatim>\<open>AppEnvConst\<close> is computed once from the bundler's \<^verbatim>\<open>__DEV__\<close> flag and the
  process environment; \<^verbatim>\<open>??\<close> replaces an unset variable by its default.
\<close>

record ProcessEnv =
  EXPO_PUBLIC_ENVIRONMENT :: "string option"
  EXPO_PUBLIC_SENTRY_URL :: "string option"
  EXPO_PUBLIC_API_URL :: "string option"

record AppEnvConst =
  mobile :: string
  isDevelopment :: bool
  environment :: string
  sentryUrl :: string
  apiUrl :: string

definition nullish_or :: "'a option \<Rightarrow> 'a \<Rightarrow> 'a" where
  "nullish_or v d = (case v of None \<Rightarrow> d | Some x \<Rightarrow> x)"

definition AppEnvConst :: "bool \<Rightarrow> ProcessEnv \<Rightarrow> AppEnvConst" where
  "AppEnvConst DEV env =
     \<lparr>mobile = ''Mobile'',
      isDevelopment =
        (DEV \<or> nullish_or (EXPO_PUBLIC_ENVIRONMENT env) ''development'' = ''development''),
      environment = nullish_or (EXPO_PUBLIC_ENVIRONMENT env) ''development'',
      sentryUrl = nullish_or (EXPO_PUBLIC_SENTRY_URL env) [],
      apiUrl = nullish_or (EXPO_PUBLIC_API_URL env) []\<rparr>"

text \<open>
  The HTTP client's problem codes. A response that is \<^verbatim>\<open>ok\<close> carries \<^verbatim>\<open>null\<close>
  there, so the field \<open>problem\<close> of a response is an option.
\<close>

datatype PROBLEM_CODE =
  CLIENT_ERROR | SERVER_ERROR | TIMEOUT_ERROR | CONNECTION_ERROR | NETWORK_ERROR
  | UNKNOWN_ERROR | CANCEL_ERROR

text \<open>
  \<^verbatim>\<open>ResponseBound\<close> has one optional field; a concrete \<^verbatim>\<open>Response\<close> type extends
  it, which is what the extension slot of a record scheme stands for.
\<close>

record ResponseBound =
  message :: "string option"

text \<open>A JavaScript \<^verbatim>\<open>Error\<close> object, as far as the code reads and writes it.\<close>

record JsError =
  error_name :: string
  error_message :: string

text \<open>
  A value of type \<^verbatim>\<open>unknown\<close>, by what the code asks of it. \<open>Str s\<close> is the
  string \<open>s\<close> (\<^verbatim>\<open>typeof error === 'string'\<close>). \<open>Obj e a m\<close> is an object with the
  message \<open>m\<close>, where \<open>e\<close> answers \<^verbatim>\<open>error instanceof Error\<close> and \<open>a\<close> answers
  \<^verbatim>\<open>axios.isAxiosError(error)\<close>; the two tests are independent, since the second only
  reads the object's \<^verbatim>\<open>isAxiosError\<close> property. \<open>Other\<close> is any value that is neither
  a string, nor an \<^verbatim>\<open>Error\<close>, nor an axios error.
\<close>

datatype unknown = Str string | Obj bool bool string | Other

text \<open>
  The HTTP methods of the parameter type \<^verbatim>\<open>Method\<close>, a union of twenty string literals,
  and the literal each one is.
\<close>

datatype Method =
    Method_get | Method_GET | Method_delete | Method_DELETE | Method_head | Method_HEAD
  | Method_options | Method_OPTIONS | Method_post | Method_POST | Method_put | Method_PUT
  | Method_patch | Method_PATCH | Method_purge | Method_PURGE | Method_link | Method_LINK
  | Method_unlink | Method_UNLINK

fun literal :: "Method \<Rightarrow> string" where
  "literal Method_get = ''get''"
| "literal Method_GET = ''GET''"
| "literal Method_delete = ''delete''"
| "literal Method_DELETE = ''DELETE''"
| "literal Method_head = ''head''"
| "literal Method_HEAD = ''HEAD''"
| "literal Method_options = ''options''"
| "literal Method_OPTIONS = ''OPTIONS''"
| "literal Method_post = ''post''"
| "literal Method_POST = ''POST''"
| "literal Method_put = ''put''"
| "literal Method_PUT = ''PUT''"
| "literal Method_patch = ''patch''"
| "literal Method_PATCH = ''PATCH''"
| "literal Method_purge = ''purge''"
| "literal Method_PURGE = ''PURGE''"
| "literal Method_link = ''link''"
| "literal Method_LINK = ''LINK''"
| "literal Method_unlink = ''unlink''"
| "literal Method_UNLINK = ''UNLINK''"

type_synonym CancelToken = nat

text \<open>
  Request settings (\<^verbatim>\<open>AxiosRequestConfig\<close>): the keys the code touches, and every other
  key in \<open>other\<close>. Objects with string keys are association lists; the empty object is
  the empty list.
\<close>

record 'a AxiosRequestConfig =
  headers :: "(string \<times> string) list option"
  params :: "(string \<times> 'a) list option"
  cancelToken :: "CancelToken option"
  other :: "(string \<times> 'a) list"

definition empty_object :: "'a AxiosRequestConfig" where
  "empty_object = \<lparr>headers = None, params = None, cancelToken = None, other = []\<rparr>"

record ('a, 'b) ApiResponse =
  ok :: bool
  problem :: "PROBLEM_CODE option"
  originalError :: "JsError option"
  data :: "'b ResponseBound_scheme option"
  status :: "nat option"
  response_headers :: "(string \<times> string) list option"
  config :: "'a AxiosRequestConfig option"

datatype ApisauceInstance = authorizedAPI | unauthorizedAPI

record 'a ApiConfig =
  cfg_api :: ApisauceInstance
  cfg_method :: Method
  cfg_url :: string
  cfg_data :: "'a option"
  cfg_params :: "(string \<times> 'a) list option"
  cfg_setting :: "'a AxiosRequestConfig option"
  cfg_paths :: "(string \<times> 'a) list option"

record 'a ThunkArg =
  arg_data :: "'a option"
  arg_params :: "(string \<times> 'a) list option"
  arg_setting :: "'a AxiosRequestConfig option"
  arg_paths :: "(string \<times> 'a) list option"
  shouldShowToast :: "bool option"

text \<open>
  One call \<^verbatim>\<open>api[httpMethod](finalUrl, body, settings)\<close>. The second argument is the
  request data for the methods that carry a body and the query parameters otherwise.
\<close>

datatype 'a body = Data "'a option" | Params "(string \<times> 'a) list"

record 'a request =
  req_api :: ApisauceInstance
  req_method :: string
  req_url :: string
  req_body :: "'a body"
  req_settings :: "'a AxiosRequestConfig"

text \<open>What the code hands to the crash-reporting SDK.\<close>

record ('a, 'b) extra =
  extra_endpoint :: "string option"
  extra_response :: "('a, 'b) ApiResponse option"
  extra_errorMessage :: string
  extra_status :: "nat option"
  extra_ErrorResponse :: "'b ResponseBound_scheme option"

datatype ('a, 'b) sentry_call =
    CaptureException JsError "('a, 'b) extra option"
  | CaptureMessage string string string

text \<open>An abort listener is a closure that cancels one token source with one reason.\<close>

datatype listener = CancelSource nat string

text \<open>
  The part of the world the module acts on: the cancel-token sources created so far (each
  with the reason it was cancelled with, \<open>None\<close> while it is live), the requests handed to
  the HTTP client and the calls made into the crash-reporting SDK, all in order.
\<close>

record ('a, 'b) world =
  sources :: "string option list"
  requests :: "'a request list"
  sentry :: "('a, 'b) sentry_call list"

text \<open>
  How one execution of a thunk settles: fulfilled with the value its payload creator
  returned, rejected with the value the payload creator passed to
  \<^verbatim>\<open>rejectWithValue\<close>, or, when its abort signal fired first, rejected by the library
  with an \<^verbatim>\<open>AbortError\<close> and no value.
\<close>

datatype ('r, 'e) thunk_result = Fulfilled 'r | Rejected 'e | Aborted

text \<open>The awaited request either resolves to a response or throws.\<close>

datatype ('a, 'b) outcome = Resolves "('a, 'b) ApiResponse" | Throws unknown

section \<open>API configuration: operations\<close>

subsection \<open>Library primitives the module calls\<close>

text \<open>
  \<^verbatim>\<open>String.prototype.toLowerCase\<close> on the ASCII letters, which is all an HTTP method
  name contains.
\<close>

definition toLowerCase_char :: "char \<Rightarrow> char" where
  "toLowerCase_char c =
     (case map_of (zip ''ABCDEFGHIJKLMNOPQRSTUVWXYZ'' ''abcdefghijklmnopqrstuvwxyz'') c of
        None \<Rightarrow> c
      | Some l \<Rightarrow> l)"

definition toLowerCase :: "string \<Rightarrow> string" where
  "toLowerCase s = map toLowerCase_char s"

text \<open>\<^verbatim>\<open>_.isEmpty\<close> on an optional object: \<^verbatim>\<open>undefined\<close> and \<^verbatim>\<open>{}\<close> are empty.\<close>

definition isEmpty :: "(string \<times> 'a) list option \<Rightarrow> bool" where
  "isEmpty obj = (case obj of None \<Rightarrow> True | Some kvs \<Rightarrow> kvs = [])"

text \<open>Truthiness of an optional string: \<^verbatim>\<open>undefined\<close> and \<^verbatim>\<open>''\<close> are falsy.\<close>

definition truthy :: "string option \<Rightarrow> bool" where
  "truthy s = (case s of None \<Rightarrow> False | Some x \<Rightarrow> x \<noteq> [])"

text \<open>
  \<^verbatim>\<open>CancelToken.source()\<close> allocates a fresh source; its token is named by the source's
  index. \<^verbatim>\<open>source.cancel(reason)\<close> records the reason unless the token was cancelled
  before.
\<close>

definition CancelToken_source :: "('a, 'b) world \<Rightarrow> nat \<times> ('a, 'b) world" where
  "CancelToken_source w = (length (sources w), w\<lparr>sources := sources w @ [None]\<rparr>)"

definition cancel :: "nat \<Rightarrow> string \<Rightarrow> ('a, 'b) world \<Rightarrow> ('a, 'b) world" where
  "cancel source reason w =
     (if source < length (sources w) then
        (case sources w ! source of
           None \<Rightarrow> w\<lparr>sources := (sources w)[source := Some reason]\<rparr>
         | Some _ \<Rightarrow> w)
      else w)"

text \<open>
  An abort signal is the list of its listeners. Every execution of a thunk gets a signal of
  its own. \<^verbatim>\<open>signal.addEventListener('abort', f)\<close> appends a listener; when the signal
  aborts, its listeners run in the order they were added.
\<close>

type_synonym AbortSignal = "listener list"

definition addEventListener :: "listener \<Rightarrow> AbortSignal \<Rightarrow> AbortSignal" where
  "addEventListener f signal = signal @ [f]"

fun run_listener :: "listener \<Rightarrow> ('a, 'b) world \<Rightarrow> ('a, 'b) world" where
  "run_listener (CancelSource source reason) w = cancel source reason w"

definition signal_abort :: "AbortSignal \<Rightarrow> ('a, 'b) world \<Rightarrow> ('a, 'b) world" where
  "signal_abort signal w = fold run_listener signal w"

text \<open>
  The request methods of an API instance. Indexing the instance with any other lower-cased
  method name gives \<^verbatim>\<open>undefined\<close>, and calling that throws a \<^verbatim>\<open>TypeError\<close>: an
  \<^verbatim>\<open>Error\<close> that is no axios error. The wording of its message is the JavaScript
  engine's; the text here is one engine's.
\<close>

definition instance_methods :: "string list" where
  "instance_methods =
     [''get'', ''delete'', ''head'', ''post'', ''put'', ''patch'', ''link'', ''unlink'']"

definition not_a_function :: unknown where
  "not_a_function = Obj True False ''api[httpMethod] is not a function''"

subsection \<open>Crash reporting\<close>

definition sentryCaptureAPIException ::
  "AppEnvConst \<Rightarrow> APIError \<Rightarrow> string option \<Rightarrow> ('a, 'b) ApiResponse option \<Rightarrow> unknown
     \<Rightarrow> ('a, 'b) world \<Rightarrow> ('a, 'b) world" where
  "sentryCaptureAPIException env Strings_APIError endpoint response err w =
     (if \<not> isDevelopment env then
        (let errorMessage =
               (case err of
                  Str s \<Rightarrow> s
                | Obj True _ m \<Rightarrow> m
                | _ \<Rightarrow> unexpectedError Strings_APIError);
             customError =
               \<lparr>error_name =
                  (if truthy endpoint
                   then error Strings_APIError @ '': '' @ nullish_or endpoint []
                   else error Strings_APIError),
                error_message = errorMessage\<rparr>
         in w\<lparr>sentry := sentry w @
                [CaptureException customError
                   (Some \<lparr>extra_endpoint = endpoint,
                          extra_response = response,
                          extra_errorMessage = errorMessage,
                          extra_status = Option.bind response status,
                          extra_ErrorResponse = Option.bind response data\<rparr>)]\<rparr>)
      else w)"

text \<open>
  \<^verbatim>\<open>sentryCaptureMessage\<close> serializes its two optional objects with
  \<^verbatim>\<open>JSON.stringify\<close>, a parameter here.
\<close>

definition sentryCaptureMessage ::
  "AppEnvConst \<Rightarrow> ((string \<times> 'a) list \<Rightarrow> string) \<Rightarrow> string \<Rightarrow> (string \<times> 'a) list option
     \<Rightarrow> (string \<times> 'a) list option \<Rightarrow> ('a, 'b) world \<Rightarrow> ('a, 'b) world" where
  "sentryCaptureMessage env JSON_stringify eventName request err w =
     (if \<not> isDevelopment env then
        w\<lparr>sentry := sentry w @
            [CaptureMessage eventName
               (JSON_stringify (nullish_or request []))
               (JSON_stringify (nullish_or err []))]\<rparr>
      else w)"

definition sentryCaptureException ::
  "AppEnvConst \<Rightarrow> JsError \<Rightarrow> ('a, 'b) world \<Rightarrow> ('a, 'b) world" where
  "sentryCaptureException env err w =
     (if \<not> isDevelopment env then w\<lparr>sentry := sentry w @ [CaptureException err None]\<rparr>
      else w)"

subsection \<open>Requests and their errors\<close>

text \<open>
  \<^verbatim>\<open>formatString\<close>, \<^verbatim>\<open>getErrorResponse\<close> (both of \<^verbatim>\<open>utils/CommonUtils\<close>) and
  the constant \<^verbatim>\<open>APIErrorType.USER_CANCELLED_REQUEST\<close> are imported from modules that
  are not among the sources; the functions that use them take them as arguments.

  \<^verbatim>\<open>apiWithCancelToken\<close> ends in the call \<^verbatim>\<open>api[httpMethod](...)\<close>. When the instance
  has that method, the request is handed to the HTTP client (\<open>Inr\<close>, the world with the
  request); when it has not, the call throws and nothing is handed over (\<open>Inl\<close>).
\<close>

definition apiWithCancelToken ::
  "(string \<Rightarrow> (string \<times> 'a) list \<Rightarrow> string) \<Rightarrow> 'a ApiConfig \<Rightarrow> nat
     \<Rightarrow> ('a, 'b) world \<Rightarrow> unknown + ('a, 'b) world" where
  "apiWithCancelToken formatString c source w =
     (let httpMethod = toLowerCase (literal (cfg_method c));
          hasData = (httpMethod \<in> set [''post'', ''put'', ''patch'']);
          setting = nullish_or (cfg_setting c) empty_object;
          settings = setting
            \<lparr>headers := Some (nullish_or (headers setting) []),
             params := (if \<not> hasData \<and> cfg_params c \<noteq> None then cfg_params c
                        else params setting)\<rparr>;
          settings = settings\<lparr>cancelToken := Some source\<rparr>;
          finalUrl =
            (case cfg_paths c of
               None \<Rightarrow> cfg_url c
             | Some paths \<Rightarrow>
                 if \<not> isEmpty (Some paths) then formatString (cfg_url c) paths else cfg_url c);
          request =
            \<lparr>req_api = cfg_api c,
             req_method = httpMethod,
             req_url = finalUrl,
             req_body =
               (if hasData then Data (cfg_data c) else Params (nullish_or (cfg_params c) [])),
             req_settings = settings\<rparr>
      in if httpMethod \<in> set instance_methods
         then Inr (w\<lparr>requests := requests w @ [request]\<rparr>)
         else Inl not_a_function)"

definition handleClientError ::
  "(string \<Rightarrow> 'e) \<Rightarrow> ('a, 'b) ApiResponse \<Rightarrow> string \<Rightarrow> 'e" where
  "handleClientError getErrorResponse response defaultMessage =
     (let messages = nullish_or (Option.bind (data response) message) defaultMessage
      in getErrorResponse messages)"

text \<open>
  The \<^verbatim>\<open>if\<close> that follows the \<^verbatim>\<open>switch\<close> in \<^verbatim>\<open>handleError\<close> has an empty body
  (a comment says where a toast could be shown), so \<open>shouldShowToast\<close> has no effect.
\<close>

definition handleError ::
  "(string \<Rightarrow> 'e) \<Rightarrow> APIError \<Rightarrow> ('a, 'b) ApiResponse \<Rightarrow> bool \<Rightarrow> 'e" where
  "handleError getErrorResponse Strings_APIError response showToast =
     (case problem response of
        Some CLIENT_ERROR \<Rightarrow>
          handleClientError getErrorResponse response (clientError Strings_APIError)
      | Some SERVER_ERROR \<Rightarrow>
          handleClientError getErrorResponse response (serverError Strings_APIError)
      | Some TIMEOUT_ERROR \<Rightarrow>
          handleClientError getErrorResponse response (timeoutError Strings_APIError)
      | Some CONNECTION_ERROR \<Rightarrow>
          handleClientError getErrorResponse response (connectionError Strings_APIError)
      | Some NETWORK_ERROR \<Rightarrow>
          handleClientError getErrorResponse response (networkError Strings_APIError)
      | Some CANCEL_ERROR \<Rightarrow>
          handleClientError getErrorResponse response (cancelError Strings_APIError)
      | _ \<Rightarrow>
          handleClientError getErrorResponse response (somethingWentWrong Strings_APIError))"

definition handleCatchError :: "(string \<Rightarrow> 'e) \<Rightarrow> APIError \<Rightarrow> unknown \<Rightarrow> 'e" where
  "handleCatchError getErrorResponse Strings_APIError err =
     (case err of
        Obj _ True m \<Rightarrow> getErrorResponse m
      | _ \<Rightarrow> getErrorResponse (unexpectedError Strings_APIError))"

definition processResponseAndCaptureInfo ::
  "AppEnvConst \<Rightarrow> APIError \<Rightarrow> string \<Rightarrow> ('a, 'b) ApiResponse \<Rightarrow> string
     \<Rightarrow> ('a, 'b) world \<Rightarrow> ('a, 'b) world" where
  "processResponseAndCaptureInfo env Strings_APIError USER_CANCELLED_REQUEST response u w =
     (let responseClone = response\<lparr>config := None, response_headers := None\<rparr>
      in if map_option error_message (originalError response) \<noteq> Some USER_CANCELLED_REQUEST
         then sentryCaptureAPIException env Strings_APIError (Some u) (Some responseClone)
                (case Option.bind (data response) message of
                   None \<Rightarrow> Other
                 | Some m \<Rightarrow> Str m) w
         else w)"

subsection \<open>The thunk\<close>

text \<open>
  The payload creator of \<^verbatim>\<open>createAsyncThunkWithCancelToken\<close> runs in two parts around
  its single \<^verbatim>\<open>await\<close>. Up to the \<^verbatim>\<open>await\<close> it creates the token source,
  registers the abort listener on the signal it was given and calls
  \<^verbatim>\<open>apiWithCancelToken\<close> (\<open>payloadCreator_dispatch\<close>, which also returns the error
  if that call threw). After the \<^verbatim>\<open>await\<close> it looks at what the request came to
  (\<open>payloadCreator_settle\<close>); a call that threw comes to that exception.

  Whether the abort signal fires before the thunk has settled, and what a request that was
  handed to the HTTP client comes to, is decided outside the module: both are arguments of
  \<open>createAsyncThunkWithCancelToken\<close>. The library gives each execution a fresh signal.
  When the signal fires, the library rejects the thunk at once with an \<^verbatim>\<open>AbortError\<close>,
  whatever the payload creator returns later; the payload creator still runs to its end, so
  its effects on the world are those of the second component. \<open>typePrefix\<close> only names
  the actions the library dispatches.
\<close>

definition no_payload :: "'a ThunkArg" where
  "no_payload =
     \<lparr>arg_data = None, arg_params = None, arg_setting = None, arg_paths = None,
      shouldShowToast = None\<rparr>"

definition payloadCreator_dispatch ::
  "(string \<Rightarrow> (string \<times> 'a) list \<Rightarrow> string) \<Rightarrow> string \<Rightarrow> Method \<Rightarrow> string
     \<Rightarrow> ApisauceInstance \<Rightarrow> 'a ThunkArg option \<Rightarrow> AbortSignal \<Rightarrow> ('a, 'b) world
     \<Rightarrow> nat \<times> AbortSignal \<times> unknown option \<times> ('a, 'b) world" where
  "payloadCreator_dispatch formatString USER_CANCELLED_REQUEST method u api payload signal w =
     (let p = nullish_or payload no_payload;
          (source, w1) = CancelToken_source w;
          signal1 = addEventListener (CancelSource source USER_CANCELLED_REQUEST) signal
      in case apiWithCancelToken formatString
                \<lparr>cfg_api = api, cfg_method = method, cfg_url = u, cfg_data = arg_data p,
                 cfg_params = arg_params p, cfg_setting = arg_setting p,
                 cfg_paths = arg_paths p\<rparr>
                source w1 of
           Inl err \<Rightarrow> (source, signal1, Some err, w1)
         | Inr w2 \<Rightarrow> (source, signal1, None, w2))"

definition payloadCreator_settle ::
  "AppEnvConst \<Rightarrow> APIError \<Rightarrow> (string \<Rightarrow> 'e) \<Rightarrow> string \<Rightarrow> string \<Rightarrow> 'a ThunkArg option
     \<Rightarrow> ('a, 'b) outcome \<Rightarrow> ('a, 'b) world
     \<Rightarrow> ('b ResponseBound_scheme option, 'e) thunk_result \<times> ('a, 'b) world" where
  "payloadCreator_settle env Strings_APIError getErrorResponse USER_CANCELLED_REQUEST u payload
       result w =
     (let p = nullish_or payload no_payload;
          showToast = nullish_or (shouldShowToast p) True
      in case result of
           Resolves response \<Rightarrow>
             if ok response then (Fulfilled (data response), w)
             else (Rejected (handleError getErrorResponse Strings_APIError response showToast),
                   processResponseAndCaptureInfo env Strings_APIError USER_CANCELLED_REQUEST
                     response u w)
         | Throws err \<Rightarrow>
             (Rejected (handleCatchError getErrorResponse Strings_APIError err),
              sentryCaptureAPIException env Strings_APIError (Some u) None err w))"

definition createAsyncThunkWithCancelToken ::
  "AppEnvConst \<Rightarrow> APIError \<Rightarrow> (string \<Rightarrow> 'e) \<Rightarrow> (string \<Rightarrow> (string \<times> 'a) list \<Rightarrow> string)
     \<Rightarrow> string \<Rightarrow> string \<Rightarrow> Method \<Rightarrow> string \<Rightarrow> ApisauceInstance option
     \<Rightarrow> 'a ThunkArg option \<Rightarrow> bool \<Rightarrow> ('a, 'b) outcome \<Rightarrow> ('a, 'b) world
     \<Rightarrow> ('b ResponseBound_scheme option, 'e) thunk_result \<times> ('a, 'b) world" where
  "createAsyncThunkWithCancelToken env Strings_APIError getErrorResponse formatString
       USER_CANCELLED_REQUEST typePrefix method u api payload abort_fires result w =
     (let (source, signal, thrown, w1) =
            payloadCreator_dispatch formatString USER_CANCELLED_REQUEST method u
              (nullish_or api authorizedAPI) payload [] w;
          w2 = (if abort_fires then signal_abort signal w1 else w1);
          (returned, w3) =
            payloadCreator_settle env Strings_APIError getErrorResponse USER_CANCELLED_REQUEST u
              payload (case thrown of None \<Rightarrow> result | Some err \<Rightarrow> Throws err) w2
      in (if abort_fires then Aborted else returned, w3))"

section \<open>Build scripts\<close>

text \<open>
  The environment script acts on the files of the working directory, a map from file names
  to contents. \<^verbatim>\<open>$1\<close> is the empty string when the script gets no argument.
  \<^verbatim>\<open>touch\<close> creates an empty file when there is none; \<^verbatim>\<open>cp\<close> replaces the target
  by the source's content and fails, leaving the target alone, when the source is missing.
  The script does not run under \<^verbatim>\<open>set -e\<close>, so a failed \<^verbatim>\<open>cp\<close> does not stop it:
  its exit status is the status of the last command, the final \<^verbatim>\<open>echo\<close>, unless the
  \<^verbatim>\<open>else\<close> branch exits with status 1. The result is the exit status, the files and
  the lines written to standard output.
\<close>

type_synonym files = "string \<rightharpoonup> string"

definition touch :: "string \<Rightarrow> files \<Rightarrow> files" where
  "touch f fs = (case fs f of None \<Rightarrow> fs(f \<mapsto> []) | Some _ \<Rightarrow> fs)"

definition cp :: "string \<Rightarrow> string \<Rightarrow> files \<Rightarrow> files" where
  "cp src dst fs = (case fs src of None \<Rightarrow> fs | Some content \<Rightarrow> fs(dst \<mapsto> content))"

definition positional :: "string list \<Rightarrow> nat \<Rightarrow> string" where
  "positional args n = (if 0 < n \<and> n \<le> length args then args ! (n - 1) else [])"

definition set_env :: "string list \<Rightarrow> files \<Rightarrow> nat \<times> files \<times> string list" where
  "set_env args fs =
     (let arg1 = positional args 1;
          (fs1, out1) =
            (if fs ''.env'' = None
             then (touch ''.env'' fs, [''.env file does not exist. Creating .env file...''])
             else (fs, []))
      in if arg1 = ''prod'' then
           (0, cp ''.env.production'' ''.env'' fs1,
            out1 @ [''.env file has been updated with '' @ arg1 @ '' environment variables.''])
         else if arg1 = ''preview'' then
           (0, cp ''.env.preview'' ''.env'' fs1,
            out1 @ [''.env file has been updated with '' @ arg1 @ '' environment variables.''])
         else if arg1 = ''dev'' then
           (0, cp ''.env.development'' ''.env'' fs1,
            out1 @ [''.env file has been updated with '' @ arg1 @ '' environment variables.''])
         else
           (1, fs1,
            out1 @ [''Invalid environment specified. Please use 'production', 'preview', or 'development'.'']))"

text \<open>
  The iOS build script, in the part that turns its three positional parameters into the
  names it builds with and into the arguments of the archive command. \<^verbatim>\<open>${1:-"Production"}\<close>
  takes the default when the parameter is unset or empty. The steps between the two parts
  (dependency installation, cache cleaning, the Podfile, CocoaPods, the export options file)
  assign none of these variables.
\<close>

record ios_vars =
  ENVIRONMENT :: string
  TEAM_ID :: string
  ALLOW_EXPORT :: string
  PROJECT_NAME :: string
  SCHEME_NAME :: string
  ARCHIVE_PATH :: string
  EXPORT_PATH :: string
  EXPORT_OPTIONS_PLIST :: string

definition default_if_empty :: "string \<Rightarrow> string \<Rightarrow> string" where
  "default_if_empty v d = (if v = [] then d else v)"

definition ios_build_vars :: "string list \<Rightarrow> nat + ios_vars" where
  "ios_build_vars args =
     (let environment0 = default_if_empty (positional args 1) ''Production'';
          team_id = positional args 2;
          allow_export0 = default_if_empty (positional args 3) ''false''
      in if team_id = [] then Inl 1
         else if environment0 = [] then Inl 1
         else
           (let (environment1, allow_export1) =
                  (if environment0 = ''Production'' then ([], ''false'')
                   else (environment0, allow_export0));
                PROJECT_BASE_NAME = ''withinstruction'';
                project_name = PROJECT_BASE_NAME @ environment1
            in Inr \<lparr>ENVIRONMENT = environment1,
                    TEAM_ID = team_id,
                    ALLOW_EXPORT = allow_export1,
                    PROJECT_NAME = project_name,
                    SCHEME_NAME = PROJECT_BASE_NAME @ environment1,
                    ARCHIVE_PATH = ''./ios/build/'' @ project_name @ ''.xcarchive'',
                    EXPORT_PATH = ''./ios/build'',
                    EXPORT_OPTIONS_PLIST = ''./ios/ExportOptions.plist''\<rparr>))"

definition xcodebuild_archive :: "ios_vars \<Rightarrow> string list" where
  "xcodebuild_archive v =
     [''xcodebuild'', ''archive'', ''-workspace'', PROJECT_NAME v @ ''.xcworkspace'',
      ''-scheme'', SCHEME_NAME v,
      ''-destination'', ''generic/platform=iOS'',
      ''-archivePath'', ARCHIVE_PATH v,
      ''-configuration'', ''Release'',
      ''CODE_SIGN_STYLE=Automatic'',
      ''DEVELOPMENT_TEAM='' @ TEAM_ID v,
      ''ARCHS=arm64'',
      ''-allowProvisioningUpdates'']"

section \<open>Notions used in the statements\<close>

text \<open>
  The lookup table of the specification: the localized message that belongs to a problem
  code. \<^verbatim>\<open>UNKNOWN_ERROR\<close> and a missing code get the general message.
\<close>

definition localized_message :: "APIError \<Rightarrow> PROBLEM_CODE option \<Rightarrow> string" where
  "localized_message Strings_APIError p =
     (case p of
        Some CLIENT_ERROR \<Rightarrow> clientError Strings_APIError
      | Some SERVER_ERROR \<Rightarrow> serverError Strings_APIError
      | Some TIMEOUT_ERROR \<Rightarrow> timeoutError Strings_APIError
      | Some CONNECTION_ERROR \<Rightarrow> connectionError Strings_APIError
      | Some NETWORK_ERROR \<Rightarrow> networkError Strings_APIError
      | Some CANCEL_ERROR \<Rightarrow> cancelError Strings_APIError
      | Some UNKNOWN_ERROR \<Rightarrow> somethingWentWrong Strings_APIError
      | None \<Rightarrow> somethingWentWrong Strings_APIError)"

text \<open>
  Whether an API instance has the request method that a \<^verbatim>\<open>Method\<close> names once it is
  lower-cased. It has all of them except \<^verbatim>\<open>options\<close> and \<^verbatim>\<open>purge\<close>.
\<close>

definition instance_has :: "Method \<Rightarrow> bool" where
  "instance_has method = (toLowerCase (literal method) \<in> set instance_methods)"

text \<open>
  The failures that reach the crash-reporting service: an exception, and a response that is
  not \<^verbatim>\<open>ok\<close> unless the message of its original error is the reason that a user's
  cancellation gives.
\<close>

definition failure_to_report :: "string \<Rightarrow> ('a, 'b) outcome \<Rightarrow> bool" where
  "failure_to_report USER_CANCELLED_REQUEST result =
     (case result of
        Resolves response \<Rightarrow>
          \<not> ok response
          \<and> map_option error_message (originalError response) \<noteq> Some USER_CANCELLED_REQUEST
      | Throws err \<Rightarrow> True)"

text \<open>The file the environment script copies for its argument, if it knows the argument.\<close>

definition selected_env_file :: "string \<Rightarrow> string option" where
  "selected_env_file arg =
     (if arg = ''prod'' then Some ''.env.production''
      else if arg = ''preview'' then Some ''.env.preview''
      else if arg = ''dev'' then Some ''.env.development''
      else None)"

subsection \<open>Sample inputs\<close>

text \<open>
  Concrete inputs at which the statements below are evaluated. The translations, the error
  response (here the message itself) and the path formatter (here the identity on the URL)
  stand in for the modules that are not among the sources.
\<close>

definition sample_Strings :: APIError where
  "sample_Strings =
     \<lparr>somethingWentWrong = ''Something went wrong'',
      networkError = ''Network error'',
      serverError = ''Server error'',
      timeoutError = ''Timeout'',
      clientError = ''Client error'',
      cancelError = ''Cancelled'',
      connectionError = ''Connection error'',
      unexpectedError = ''Unexpected error'',
      cancelSagaError = ''Saga cancelled'',
      error = ''API Error''\<rparr>"

definition production_env :: AppEnvConst where
  "production_env =
     AppEnvConst False
       \<lparr>EXPO_PUBLIC_ENVIRONMENT = Some ''production'',
        EXPO_PUBLIC_SENTRY_URL = Some ''https://sentry.example/1'',
        EXPO_PUBLIC_API_URL = Some ''https://api.example''\<rparr>"

definition development_env :: AppEnvConst where
  "development_env =
     AppEnvConst True
       \<lparr>EXPO_PUBLIC_ENVIRONMENT = None,
        EXPO_PUBLIC_SENTRY_URL = None,
        EXPO_PUBLIC_API_URL = None\<rparr>"

definition empty_world :: "(string, unit) world" where
  "empty_world = \<lparr>sources = [], requests = [], sentry = []\<rparr>"

definition busy_world :: "(string, unit) world" where
  "busy_world = \<lparr>sources = [Some ''EARLIER_REQUEST''], requests = [], sentry = []\<rparr>"

definition conflict_response :: "(string, unit) ApiResponse" where
  "conflict_response =
     \<lparr>ok = False, problem = Some CLIENT_ERROR,
      originalError = Some \<lparr>error_name = ''AxiosError'',
                             error_message = ''Request failed with status code 409''\<rparr>,
      data = Some \<lparr>message = Some ''Email already registered''\<rparr>,
      status = Some 409, response_headers = Some [], config = None\<rparr>"

definition timeout_response :: "(string, unit) ApiResponse" where
  "timeout_response =
     \<lparr>ok = False, problem = Some TIMEOUT_ERROR,
      originalError = Some \<lparr>error_name = ''AxiosError'',
                             error_message = ''timeout of 120000ms exceeded''\<rparr>,
      data = None, status = None, response_headers = None, config = None\<rparr>"

definition cancelled_response :: "(string, unit) ApiResponse" where
  "cancelled_response =
     \<lparr>ok = False, problem = Some CANCEL_ERROR,
      originalError = Some \<lparr>error_name = ''CanceledError'',
                             error_message = ''USER_CANCELLED_REQUEST''\<rparr>,
      data = None, status = None, response_headers = None, config = None\<rparr>"

definition sample_payload :: "string ThunkArg" where
  "sample_payload =
     \<lparr>arg_data = None,
      arg_params = Some [(''page'', ''2'')],
      arg_setting = Some \<lparr>headers = None, params = None, cancelToken = Some 7, other = []\<rparr>,
      arg_paths = None,
      shouldShowToast = Some False\<rparr>"

definition sample_files :: files where
  "sample_files =
     [''.env.production'' \<mapsto> ''API=https://api.example'',
      ''.env.development'' \<mapsto> ''API=http://localhost:3000'']"

section \<open>Auxiliary facts\<close>

lemmas sample_defs =
  sample_Strings_def production_env_def development_env_def empty_world_def
  conflict_response_def cancelled_response_def AppEnvConst_def nullish_or_def
  localized_message_def

lemmas thunk_defs =
  createAsyncThunkWithCancelToken_def payloadCreator_dispatch_def payloadCreator_settle_def
  apiWithCancelToken_def CancelToken_source_def addEventListener_def signal_abort_def
  cancel_def processResponseAndCaptureInfo_def sentryCaptureAPIException_def
  handleError_def handleClientError_def handleCatchError_def no_payload_def empty_object_def
  toLowerCase_def toLowerCase_char_def isEmpty_def truthy_def instance_methods_def
  not_a_function_def Let_def

lemma handleError_message:
  "handleError g S r t =
     g (nullish_or (Option.bind (data r) message) (localized_message S (problem r)))"
  by (simp add: handleError_def handleClientError_def localized_message_def Let_def
           split: option.split PROBLEM_CODE.split)

lemma cancel_requests [simp]: "requests (cancel n reason w) = requests w"
  by (simp add: cancel_def split: option.split)

lemma cancel_sentry [simp]: "sentry (cancel n reason w) = sentry w"
  by (simp add: cancel_def split: option.split)

lemma cancel_fresh:
  "sources w = xs @ [None] \<Longrightarrow> sources (cancel (length xs) reason w) = xs @ [Some reason]"
  by (simp add: cancel_def)

lemma signal_abort_single: "signal_abort [CancelSource n reason] w = cancel n reason w"
  by (simp add: signal_abort_def)

lemma apiWithCancelToken_has:
  assumes "instance_has (cfg_method c)"
  shows "\<exists>rq. apiWithCancelToken f c k w = Inr (w\<lparr>requests := requests w @ [rq]\<rparr>)
           \<and> cancelToken (req_settings rq) = Some k
           \<and> req_method rq = toLowerCase (literal (cfg_method c))
           \<and> req_api rq = cfg_api c"
proof -
  have h: "toLowerCase (literal (cfg_method c)) \<in> set instance_methods"
    using assms by (simp add: instance_has_def)
  show ?thesis
    unfolding apiWithCancelToken_def Let_def if_P [OF h]
    by (rule exI, rule conjI, rule refl) simp
qed

lemma apiWithCancelToken_lacks:
  assumes "\<not> instance_has (cfg_method c)"
  shows "apiWithCancelToken f c k w = Inl not_a_function"
  using assms by (simp add: apiWithCancelToken_def instance_has_def Let_def)

lemma dispatch_has:
  assumes "instance_has m"
  shows "\<exists>rq. payloadCreator_dispatch f U m u a p [] w =
             (length (sources w), [CancelSource (length (sources w)) U], None,
              w\<lparr>sources := sources w @ [None], requests := requests w @ [rq]\<rparr>)
           \<and> cancelToken (req_settings rq) = Some (length (sources w))
           \<and> req_method rq = toLowerCase (literal m)
           \<and> req_api rq = a"
proof -
  let ?c = "\<lparr>cfg_api = a, cfg_method = m, cfg_url = u,
             cfg_data = arg_data (nullish_or p no_payload),
             cfg_params = arg_params (nullish_or p no_payload),
             cfg_setting = arg_setting (nullish_or p no_payload),
             cfg_paths = arg_paths (nullish_or p no_payload)\<rparr>"
  let ?w1 = "w\<lparr>sources := sources w @ [None]\<rparr>"
  have "instance_has (cfg_method ?c)"
    using assms by simp
  from apiWithCancelToken_has [OF this, of f "length (sources w)" ?w1]
  obtain rq where rq: "apiWithCancelToken f ?c (length (sources w)) ?w1
                         = Inr (?w1\<lparr>requests := requests ?w1 @ [rq]\<rparr>)"
      "cancelToken (req_settings rq) = Some (length (sources w))"
      "req_method rq = toLowerCase (literal m)" "req_api rq = a"
    by auto
  have "payloadCreator_dispatch f U m u a p [] w =
          (length (sources w), [CancelSource (length (sources w)) U], None,
           w\<lparr>sources := sources w @ [None], requests := requests w @ [rq]\<rparr>)"
    by (simp add: payloadCreator_dispatch_def CancelToken_source_def addEventListener_def
          Let_def rq(1))
  with rq show ?thesis
    by blast
qed

lemma dispatch_lacks:
  assumes "\<not> instance_has m"
  shows "payloadCreator_dispatch f U m u a p [] w =
           (length (sources w), [CancelSource (length (sources w)) U], Some not_a_function,
            w\<lparr>sources := sources w @ [None]\<rparr>)"
proof -
  let ?c = "\<lparr>cfg_api = a, cfg_method = m, cfg_url = u,
             cfg_data = arg_data (nullish_or p no_payload),
             cfg_params = arg_params (nullish_or p no_payload),
             cfg_setting = arg_setting (nullish_or p no_payload),
             cfg_paths = arg_paths (nullish_or p no_payload)\<rparr>"
  have lacks: "\<not> instance_has (cfg_method ?c)"
    using assms by simp
  show ?thesis
    by (simp add: payloadCreator_dispatch_def CancelToken_source_def addEventListener_def
          Let_def apiWithCancelToken_lacks [OF lacks])
qed

lemma sentryCaptureAPIException_sources [simp]:
  "sources (sentryCaptureAPIException env S ep ro err w) = sources w"
  by (simp add: sentryCaptureAPIException_def Let_def)

lemma sentryCaptureAPIException_requests [simp]:
  "requests (sentryCaptureAPIException env S ep ro err w) = requests w"
  by (simp add: sentryCaptureAPIException_def Let_def)

lemma sentryCaptureAPIException_reports:
  assumes "\<not> isDevelopment env"
  shows "\<exists>ex details. sentry (sentryCaptureAPIException env S ep ro err w)
                          = sentry w @ [CaptureException ex (Some details)]
           \<and> extra_endpoint details = ep"
  using assms by (simp add: sentryCaptureAPIException_def Let_def)

lemma processResponse_sources [simp]:
  "sources (processResponseAndCaptureInfo env S U r u w) = sources w"
  by (simp add: processResponseAndCaptureInfo_def Let_def)

lemma processResponse_requests [simp]:
  "requests (processResponseAndCaptureInfo env S U r u w) = requests w"
  by (simp add: processResponseAndCaptureInfo_def Let_def)

lemma settle_sources [simp]:
  "sources (snd (payloadCreator_settle env S g U u p result w)) = sources w"
  by (simp add: payloadCreator_settle_def Let_def split: outcome.split)

lemma settle_requests [simp]:
  "requests (snd (payloadCreator_settle env S g U u p result w)) = requests w"
  by (simp add: payloadCreator_settle_def Let_def split: outcome.split)

lemma settle_fst:
  "fst (payloadCreator_settle env S g U u p result w) =
     (case result of
        Resolves response \<Rightarrow>
          if ok response then Fulfilled (data response)
          else Rejected (handleError g S response
                  (nullish_or (shouldShowToast (nullish_or p no_payload)) True))
      | Throws err \<Rightarrow> Rejected (handleCatchError g S err))"
  by (simp add: payloadCreator_settle_def Let_def split: outcome.split)

lemma settle_reports:
  assumes "failure_to_report U result" and "\<not> isDevelopment env"
  shows "\<exists>ex details. sentry (snd (payloadCreator_settle env S g U u p result w))
                          = sentry w @ [CaptureException ex (Some details)]
           \<and> extra_endpoint details = Some u"
proof (cases result)
  case (Resolves response)
  with assms(1) have "map_option error_message (originalError response) \<noteq> Some U"
      and "\<not> ok response"
    by (simp_all add: failure_to_report_def)
  then show ?thesis
    using Resolves sentryCaptureAPIException_reports [OF assms(2)]
    by (simp add: payloadCreator_settle_def processResponseAndCaptureInfo_def Let_def)
next
  case (Throws err)
  then show ?thesis
    using sentryCaptureAPIException_reports [OF assms(2)]
    by (simp add: payloadCreator_settle_def Let_def)
qed

lemma thunk_has:
  assumes "instance_has m"
  shows "\<exists>rq. cancelToken (req_settings rq) = Some (length (sources w))
           \<and> req_method rq = toLowerCase (literal m)
           \<and> req_api rq = nullish_or a authorizedAPI
           \<and> createAsyncThunkWithCancelToken env S g f U tp m u a p ab result w =
               (let w1 = w\<lparr>sources := sources w @ [None], requests := requests w @ [rq]\<rparr>;
                    w2 = (if ab then cancel (length (sources w)) U w1 else w1);
                    r = payloadCreator_settle env S g U u p result w2
                in (if ab then Aborted else fst r, snd r))"
proof -
  from dispatch_has [OF assms, of f U u "nullish_or a authorizedAPI" p w]
  obtain rq where rq:
      "payloadCreator_dispatch f U m u (nullish_or a authorizedAPI) p [] w =
         (length (sources w), [CancelSource (length (sources w)) U], None,
          w\<lparr>sources := sources w @ [None], requests := requests w @ [rq]\<rparr>)"
      "cancelToken (req_settings rq) = Some (length (sources w))"
      "req_method rq = toLowerCase (literal m)"
      "req_api rq = nullish_or a authorizedAPI"
    by blast
  have "createAsyncThunkWithCancelToken env S g f U tp m u a p ab result w =
          (let w1 = w\<lparr>sources := sources w @ [None], requests := requests w @ [rq]\<rparr>;
               w2 = (if ab then cancel (length (sources w)) U w1 else w1);
               r = payloadCreator_settle env S g U u p result w2
           in (if ab then Aborted else fst r, snd r))"
    by (simp add: createAsyncThunkWithCancelToken_def rq(1) signal_abort_single split_def
          Let_def)
  with rq(2,3,4) show ?thesis
    by blast
qed

lemma thunk_lacks:
  assumes "\<not> instance_has m"
  shows "createAsyncThunkWithCancelToken env S g f U tp m u a p ab result w =
           (let w1 = w\<lparr>sources := sources w @ [None]\<rparr>;
                w2 = (if ab then cancel (length (sources w)) U w1 else w1);
                r = payloadCreator_settle env S g U u p (Throws not_a_function) w2
            in (if ab then Aborted else fst r, snd r))"
  by (simp add: createAsyncThunkWithCancelToken_def dispatch_lacks [OF assms]
        signal_abort_single split_def Let_def)

lemma thunk_sources:
  "sources (snd (createAsyncThunkWithCancelToken env S g f U tp m u a p ab result w)) =
     sources w @ [if ab then Some U else None]"
proof (cases "instance_has m")
  case True
  from thunk_has [OF True, of w a env S g f U tp u p ab result]
  obtain rq where eq:
      "createAsyncThunkWithCancelToken env S g f U tp m u a p ab result w =
         (let w1 = w\<lparr>sources := sources w @ [None], requests := requests w @ [rq]\<rparr>;
              w2 = (if ab then cancel (length (sources w)) U w1 else w1);
              r = payloadCreator_settle env S g U u p result w2
          in (if ab then Aborted else fst r, snd r))"
    by blast
  show ?thesis
    unfolding eq by (simp add: Let_def cancel_fresh)
next
  case False
  show ?thesis
    unfolding thunk_lacks [OF False] by (simp add: Let_def cancel_fresh)
qed

lemma set_env_selected:
  assumes "selected_env_file (positional args 1) = Some f" and "fs f = Some content"
  shows "fst (set_env args fs) = 0" and "fst (snd (set_env args fs)) = fs(''.env'' \<mapsto> content)"
  using assms
  by (auto simp add: set_env_def selected_env_file_def touch_def cp_def Let_def
        split: if_splits)

lemma set_env_unrecognized:
  assumes "selected_env_file (positional args 1) = None"
  shows "fst (set_env args fs) = 1"
    and "fst (snd (set_env args fs)) =
           (case fs ''.env'' of None \<Rightarrow> fs(''.env'' \<mapsto> []) | Some c \<Rightarrow> fs)"
  using assms
  by (auto simp add: set_env_def selected_env_file_def touch_def Let_def
        split: if_splits option.splits)

lemma ios_build_vars_no_team:
  "positional args 2 = [] \<Longrightarrow> ios_build_vars args = Inl 1"
  by (simp add: ios_build_vars_def Let_def)

lemma ios_build_vars_team:
  assumes "positional args 2 \<noteq> []"
  shows "\<exists>v. ios_build_vars args = Inr v
           \<and> TEAM_ID v = positional args 2
           \<and> ENVIRONMENT v =
               (if default_if_empty (positional args 1) ''Production'' = ''Production'' then []
                else positional args 1)
           \<and> ALLOW_EXPORT v =
               (if default_if_empty (positional args 1) ''Production'' = ''Production''
                then ''false''
                else default_if_empty (positional args 3) ''false'')
           \<and> PROJECT_NAME v = ''withinstruction'' @ ENVIRONMENT v
           \<and> SCHEME_NAME v = ''withinstruction'' @ ENVIRONMENT v
           \<and> xcodebuild_archive v =
               [''xcodebuild'', ''archive'',
                ''-workspace'', ''withinstruction'' @ ENVIRONMENT v @ ''.xcworkspace'',
                ''-scheme'', ''withinstruction'' @ ENVIRONMENT v,
                ''-destination'', ''generic/platform=iOS'',
                ''-archivePath'', ''./ios/build/withinstruction'' @ ENVIRONMENT v @ ''.xcarchive'',
                ''-configuration'', ''Release'',
                ''CODE_SIGN_STYLE=Automatic'',
                ''DEVELOPMENT_TEAM='' @ positional args 2,
                ''ARCHS=arm64'',
                ''-allowProvisioningUpdates'']"
  using assms
  by (simp add: ios_build_vars_def xcodebuild_archive_def default_if_empty_def Let_def)

lemma thunk_requests_has:
  assumes "instance_has m"
  shows "\<exists>rq. requests (snd (createAsyncThunkWithCancelToken env S g f U tp m u a p ab result w))
                  = requests w @ [rq]
           \<and> cancelToken (req_settings rq) = Some (length (sources w))
           \<and> req_method rq = toLowerCase (literal m)
           \<and> req_api rq = nullish_or a authorizedAPI"
proof -
  from thunk_has [OF assms, of w a env S g f U tp u p ab result]
  obtain rq where rq: "cancelToken (req_settings rq) = Some (length (sources w))"
      "req_method rq = toLowerCase (literal m)" "req_api rq = nullish_or a authorizedAPI"
    and eq: "createAsyncThunkWithCancelToken env S g f U tp m u a p ab result w =
         (let w1 = w\<lparr>sources := sources w @ [None], requests := requests w @ [rq]\<rparr>;
              w2 = (if ab then cancel (length (sources w)) U w1 else w1);
              r = payloadCreator_settle env S g U u p result w2
          in (if ab then Aborted else fst r, snd r))"
    by blast
  have "requests (snd (createAsyncThunkWithCancelToken env S g f U tp m u a p ab result w))
          = requests w @ [rq]"
    unfolding eq by (simp add: Let_def)
  with rq show ?thesis
    by blast
qed

lemma thunk_requests_lacks:
  assumes "\<not> instance_has m"
  shows "requests (snd (createAsyncThunkWithCancelToken env S g f U tp m u a p ab result w))
           = requests w"
  unfolding thunk_lacks [OF assms] by (simp add: Let_def)

lemma thunk_fst_has:
  assumes "instance_has m"
  shows "fst (createAsyncThunkWithCancelToken env S g f U tp m u a p ab result w) =
           (if ab then Aborted
            else case result of
                Resolves response \<Rightarrow>
                  if ok response then Fulfilled (data response)
                  else Rejected (handleError g S response
                          (nullish_or (shouldShowToast (nullish_or p no_payload)) True))
              | Throws err \<Rightarrow> Rejected (handleCatchError g S err))"
proof -
  from thunk_has [OF assms, of w a env S g f U tp u p ab result]
  obtain rq where eq: "createAsyncThunkWithCancelToken env S g f U tp m u a p ab result w =
         (let w1 = w\<lparr>sources := sources w @ [None], requests := requests w @ [rq]\<rparr>;
              w2 = (if ab then cancel (length (sources w)) U w1 else w1);
              r = payloadCreator_settle env S g U u p result w2
          in (if ab then Aborted else fst r, snd r))"
    by blast
  show ?thesis
    unfolding eq by (simp add: Let_def settle_fst)
qed

lemma thunk_fst_lacks:
  assumes "\<not> instance_has m"
  shows "fst (createAsyncThunkWithCancelToken env S g f U tp m u a p ab result w) =
           (if ab then Aborted else Rejected (handleCatchError g S not_a_function))"
  unfolding thunk_lacks [OF assms] by (simp add: Let_def settle_fst)

lemma thunk_sentry_has:
  assumes "instance_has m"
  shows "sentry (snd (createAsyncThunkWithCancelToken env S g f U tp m u a p ab result w)) =
           sentry (snd (payloadCreator_settle env S g U u p result w))"
proof -
  from thunk_has [OF assms, of w a env S g f U tp u p ab result]
  obtain rq where eq: "createAsyncThunkWithCancelToken env S g f U tp m u a p ab result w =
         (let w1 = w\<lparr>sources := sources w @ [None], requests := requests w @ [rq]\<rparr>;
              w2 = (if ab then cancel (length (sources w)) U w1 else w1);
              r = payloadCreator_settle env S g U u p result w2
          in (if ab then Aborted else fst r, snd r))"
    by blast
  show ?thesis
    unfolding eq
    by (auto simp add: Let_def payloadCreator_settle_def processResponseAndCaptureInfo_def
          sentryCaptureAPIException_def split: outcome.split)
qed

lemma thunk_sentry_lacks:
  assumes "\<not> instance_has m"
  shows "sentry (snd (createAsyncThunkWithCancelToken env S g f U tp m u a p ab result w)) =
           sentry (snd (payloadCreator_settle env S g U u p (Throws not_a_function) w))"
  unfolding thunk_lacks [OF assms]
  by (simp add: Let_def payloadCreator_settle_def sentryCaptureAPIException_def)

lemma instance_has_simps [simp]:
  "instance_has Method_GET" "instance_has Method_POST"
  "\<not> instance_has Method_OPTIONS" "\<not> instance_has Method_purge"
  by (simp_all add: instance_has_def instance_methods_def toLowerCase_def toLowerCase_char_def)

section \<open>Error messages\<close>

text \<open>
  Claim C1, as the code has it. \<^verbatim>\<open>handleError\<close> selects a localized message by the
  response's problem code (client, server, timeout, connection, network, cancel; the
  general message for anything else), and returns the error response built from that
  message whenever the response body carries no message of its own. The toast flag plays
  no part in the result.
\<close>

theorem handleError_lookup_without_message:
  assumes "Option.bind (data response) message = None"
  shows "handleError getErrorResponse Strings_APIError response showToast =
           getErrorResponse (localized_message Strings_APIError (problem response))"
  using assms by (simp add: handleError_message nullish_or_def)

theorem handleError_lookup_without_message_witness:
  "Option.bind (data timeout_response) message = None
   \<and> handleError (\<lambda>messages. messages) sample_Strings timeout_response False = ''Timeout''"
proof -
  have h: "Option.bind (data timeout_response) message = None"
    by (simp add: timeout_response_def)
  show ?thesis
    using h handleError_lookup_without_message
                [OF h, of "\<lambda>messages. messages" sample_Strings False]
    by (simp add: timeout_response_def sample_defs)
qed

text \<open>
  The lookup alone does not decide the result: a response whose body carries a message is
  answered with that message, whatever its problem code. Here a \<^verbatim>\<open>CLIENT_ERROR\<close> whose
  body says that the address is taken does not come back as the localized client error.
\<close>

theorem handleError_not_pure_lookup_counterexample:
  "handleError (\<lambda>messages. messages) sample_Strings conflict_response True
     = ''Email already registered''
   \<and> localized_message sample_Strings (problem conflict_response) = ''Client error''
   \<and> handleError (\<lambda>messages. messages) sample_Strings conflict_response True
     \<noteq> localized_message sample_Strings (problem conflict_response)"
  by (simp add: handleError_def handleClientError_def sample_defs)

text \<open>
  Claim C8. When the body of an error response carries a message, the error response is
  built from that message and not from the localized one; the localized message of the
  problem code is used when the body or its message is absent. Both hold for every
  response, so for every problem code, the default branch included.
\<close>

theorem server_message_overrides_localized:
  "(data response = Some d \<and> message d = Some m \<longrightarrow>
      handleError getErrorResponse Strings_APIError response showToast = getErrorResponse m)
   \<and> (Option.bind (data response) message = None \<longrightarrow>
      handleError getErrorResponse Strings_APIError response showToast =
        getErrorResponse (localized_message Strings_APIError (problem response)))"
  by (auto simp add: handleError_message nullish_or_def)

theorem server_message_overrides_localized_witness:
  "data conflict_response = Some \<lparr>message = Some ''Email already registered''\<rparr>
   \<and> handleError (\<lambda>messages. messages) sample_Strings conflict_response True
       = ''Email already registered''
   \<and> Option.bind (data cancelled_response) message = None
   \<and> handleError (\<lambda>messages. messages) sample_Strings cancelled_response True = ''Cancelled''"
  using server_message_overrides_localized
          [of conflict_response "\<lparr>message = Some ''Email already registered''\<rparr>"
              "''Email already registered''" "\<lambda>messages. messages" sample_Strings True]
        server_message_overrides_localized
          [of cancelled_response _ _ "\<lambda>messages. messages" sample_Strings True]
  by (simp add: sample_defs)

section \<open>The thunk: cancellation, requests, crash reports\<close>

text \<open>
  Claim C2. One execution of the thunk creates one token source. Every request it hands to
  the HTTP client carries the token of that source in its settings, whatever token the
  caller's own settings named, and there is one such request when the instance has the
  method and none otherwise. When the abort signal fires, the source is cancelled with the
  reason \<^verbatim>\<open>USER_CANCELLED_REQUEST\<close>; when it does not fire, the source is still live when
  the thunk has finished: nothing else cancels it.
\<close>

theorem abort_cancels_request_token:
  "(let w' = snd (createAsyncThunkWithCancelToken env Strings_APIError getErrorResponse
                      formatString USER_CANCELLED_REQUEST typePrefix method u api payload
                      abort_fires result w);
        source = length (sources w)
    in sources w' = sources w @ [if abort_fires then Some USER_CANCELLED_REQUEST else None]
       \<and> (\<exists>rqs. requests w' = requests w @ rqs
               \<and> (\<forall>rq \<in> set rqs. cancelToken (req_settings rq) = Some source)
               \<and> length rqs = (if instance_has method then 1 else 0)))"
proof (cases "instance_has method")
  case True
  from thunk_requests_has [OF True]
  obtain rq where "requests (snd (createAsyncThunkWithCancelToken env Strings_APIError getErrorResponse
                      formatString USER_CANCELLED_REQUEST typePrefix method u api payload
                      abort_fires result w))
        = requests w @ [rq]"
      "cancelToken (req_settings rq) = Some (length (sources w))"
    by blast
  then have "\<exists>rqs. requests (snd (createAsyncThunkWithCancelToken env Strings_APIError getErrorResponse
                      formatString USER_CANCELLED_REQUEST typePrefix method u api payload
                      abort_fires result w))
        = requests w @ rqs
      \<and> (\<forall>rq \<in> set rqs. cancelToken (req_settings rq) = Some (length (sources w)))
      \<and> length rqs = 1"
    by (intro exI [of _ "[rq]"]) simp
  with True show ?thesis
    by (simp add: Let_def thunk_sources)
next
  case False
  then show ?thesis
    by (simp add: Let_def thunk_sources thunk_requests_lacks)
qed

theorem abort_cancels_request_token_witness:
  "(let w' = snd (createAsyncThunkWithCancelToken production_env sample_Strings
                   (\<lambda>messages. messages) (\<lambda>u paths. u) ''USER_CANCELLED_REQUEST''
                   ''users/fetch'' Method_GET ''/users'' None (Some sample_payload)
                   True (Resolves cancelled_response) busy_world)
    in sources w' = [Some ''EARLIER_REQUEST'', Some ''USER_CANCELLED_REQUEST'']
       \<and> (\<exists>rq. requests w' = [rq] \<and> cancelToken (req_settings rq) = Some 1))"
proof -
  have ss: "sources busy_world = [Some ''EARLIER_REQUEST'']" and rq: "requests busy_world = []"
    by (simp_all add: busy_world_def)
  show ?thesis
    using abort_cancels_request_token
            [of production_env sample_Strings "\<lambda>messages. messages" "\<lambda>u paths. u"
                "''USER_CANCELLED_REQUEST''" "''users/fetch''" Method_GET "''/users''" None
                "Some sample_payload" True "Resolves cancelled_response" busy_world]
    by (auto simp add: ss rq Let_def length_Suc_conv)
qed

text \<open>
  Claim C4, as the code has it. When the API instance has the method, one execution of the
  thunk hands exactly one request to the HTTP client whatever the request comes to: the
  requests after it are the requests before it and one more, made with the lower-cased
  method on the chosen instance. Unless the thunk is aborted, a response that is not
  \<^verbatim>\<open>ok\<close> then makes it reject with the error response of \<^verbatim>\<open>handleError\<close>, and an
  exception with that of \<^verbatim>\<open>handleCatchError\<close>; neither is a fulfilled result. An
  aborted thunk is rejected with the library's \<^verbatim>\<open>AbortError\<close>.
\<close>

theorem thunk_issues_one_request:
  "(let (res, w') = createAsyncThunkWithCancelToken env Strings_APIError getErrorResponse
                      formatString USER_CANCELLED_REQUEST typePrefix method u api payload
                      abort_fires result w
    in (instance_has method \<longrightarrow>
          (\<exists>rq. requests w' = requests w @ [rq]
                \<and> req_method rq = toLowerCase (literal method)
                \<and> req_api rq = nullish_or api authorizedAPI)
          \<and> (\<not> abort_fires \<longrightarrow>
                (\<forall>response. result = Resolves response \<and> \<not> ok response \<longrightarrow>
                   res = Rejected (handleError getErrorResponse Strings_APIError response
                           (nullish_or (shouldShowToast (nullish_or payload no_payload)) True)))
                \<and> (\<forall>err. result = Throws err \<longrightarrow>
                   res = Rejected (handleCatchError getErrorResponse Strings_APIError err))))
       \<and> (abort_fires \<longrightarrow> res = Aborted))"
proof (cases "instance_has method")
  case True
  from thunk_requests_has [OF True]
  obtain rq where "requests (snd (createAsyncThunkWithCancelToken env Strings_APIError getErrorResponse
                      formatString USER_CANCELLED_REQUEST typePrefix method u api payload
                      abort_fires result w))
        = requests w @ [rq]"
      "req_method rq = toLowerCase (literal method)" "req_api rq = nullish_or api authorizedAPI"
    by blast
  with True show ?thesis
    by (auto simp add: split_def Let_def thunk_fst_has)
next
  case False
  then show ?thesis
    by (simp add: split_def Let_def thunk_fst_lacks)
qed

theorem thunk_issues_one_request_witness:
  "(let (res, w') = createAsyncThunkWithCancelToken production_env sample_Strings
                      (\<lambda>messages. messages) (\<lambda>u paths. u) ''USER_CANCELLED_REQUEST''
                      ''users/create'' Method_POST ''/users'' None (Some sample_payload)
                      False (Resolves conflict_response) empty_world
    in length (requests w') = 1 \<and> res = Rejected ''Email already registered'')
   \<and> (let (res, w') = createAsyncThunkWithCancelToken production_env sample_Strings
                      (\<lambda>messages. messages) (\<lambda>u paths. u) ''USER_CANCELLED_REQUEST''
                      ''users/create'' Method_POST ''/users'' None (Some sample_payload)
                      False (Throws (Obj True True ''Network Error'')) empty_world
    in length (requests w') = 1 \<and> res = Rejected ''Network Error'')
   \<and> fst (createAsyncThunkWithCancelToken production_env sample_Strings
                      (\<lambda>messages. messages) (\<lambda>u paths. u) ''USER_CANCELLED_REQUEST''
                      ''users/create'' Method_POST ''/users'' None (Some sample_payload)
                      True (Resolves cancelled_response) empty_world) = Aborted"
proof -
  have rq: "requests empty_world = []"
    by (simp add: empty_world_def)
  have nok: "\<not> ok conflict_response"
    by (simp add: conflict_response_def)
  have e1: "handleError (\<lambda>messages. messages) sample_Strings conflict_response t
              = ''Email already registered''" for t
    by (simp add: handleError_def handleClientError_def sample_defs)
  have e2: "handleCatchError (\<lambda>messages. messages) sample_Strings
              (Obj True True ''Network Error'') = ''Network Error''"
    by (simp add: handleCatchError_def)
  show ?thesis
    using thunk_issues_one_request
            [of production_env sample_Strings "\<lambda>messages. messages" "\<lambda>u paths. u"
                "''USER_CANCELLED_REQUEST''" "''users/create''" Method_POST "''/users''" None
                "Some sample_payload" False "Resolves conflict_response" empty_world]
          thunk_issues_one_request
            [of production_env sample_Strings "\<lambda>messages. messages" "\<lambda>u paths. u"
                "''USER_CANCELLED_REQUEST''" "''users/create''" Method_POST "''/users''" None
                "Some sample_payload" False "Throws (Obj True True ''Network Error'')"
                empty_world]
          thunk_issues_one_request
            [of production_env sample_Strings "\<lambda>messages. messages" "\<lambda>u paths. u"
                "''USER_CANCELLED_REQUEST''" "''users/create''" Method_POST "''/users''" None
                "Some sample_payload" True "Resolves cancelled_response" empty_world]
    by (auto simp add: split_def Let_def rq nok e1 e2)
qed

text \<open>
  The count is not one for every method, and not every failed request ends in an error
  response. An API instance has no method \<^verbatim>\<open>options\<close>: a thunk made for
  \<^verbatim>\<open>OPTIONS\<close> hands no request to the HTTP client and rejects with the message for an
  unexpected error. And a thunk that is aborted while its request is in flight is rejected
  with the \<^verbatim>\<open>AbortError\<close>, not with the error response of the failed response.
\<close>

theorem not_always_one_request_counterexample:
  "createAsyncThunkWithCancelToken development_env sample_Strings
     (\<lambda>messages. messages) (\<lambda>u paths. u) ''USER_CANCELLED_REQUEST''
     ''users/options'' Method_OPTIONS ''/users'' None None
     False (Resolves conflict_response) empty_world
   = (Rejected ''Unexpected error'', \<lparr>sources = [None], requests = [], sentry = []\<rparr>)
   \<and> \<not> ok cancelled_response
   \<and> fst (createAsyncThunkWithCancelToken development_env sample_Strings
        (\<lambda>messages. messages) (\<lambda>u paths. u) ''USER_CANCELLED_REQUEST''
        ''users/fetch'' Method_GET ''/users'' None None
        True (Resolves cancelled_response) empty_world) = Aborted"
  by (simp add: thunk_defs sample_defs)

text \<open>
  Claim C5, as the code has it. Outside development mode, a response that is not
  \<^verbatim>\<open>ok\<close> and whose original error does not carry the message
  \<^verbatim>\<open>USER_CANCELLED_REQUEST\<close>, and every exception, adds exactly one exception report for
  the request's URL to the crash-reporting service; unless the thunk is aborted, it then
  rejects with what its payload creator returns.
\<close>

theorem failures_forwarded_unless_cancelled:
  assumes "failure_to_report USER_CANCELLED_REQUEST result" and "\<not> isDevelopment env"
  shows "(let (res, w') = createAsyncThunkWithCancelToken env Strings_APIError getErrorResponse
                      formatString USER_CANCELLED_REQUEST typePrefix method u api payload
                      abort_fires result w
          in (\<exists>ex details. sentry w' = sentry w @ [CaptureException ex (Some details)]
                   \<and> extra_endpoint details = Some u)
             \<and> (\<not> abort_fires \<longrightarrow> (\<exists>e. res = Rejected e)))"
proof (cases "instance_has method")
  case True
  have "\<not> abort_fires \<longrightarrow>
          (\<exists>e. fst (createAsyncThunkWithCancelToken env Strings_APIError getErrorResponse
                      formatString USER_CANCELLED_REQUEST typePrefix method u api payload
                      abort_fires result w) = Rejected e)"
    using assms(1)
    by (auto simp add: thunk_fst_has [OF True] failure_to_report_def split: outcome.splits)
  then show ?thesis
    using settle_reports [OF assms]
    by (simp add: split_def Let_def thunk_sentry_has [OF True])
next
  case False
  have "failure_to_report USER_CANCELLED_REQUEST (Throws not_a_function)"
    by (simp add: failure_to_report_def)
  from settle_reports [OF this assms(2)]
  show ?thesis
    by (simp add: split_def Let_def thunk_sentry_lacks [OF False] thunk_fst_lacks [OF False])
qed

theorem failures_forwarded_unless_cancelled_witness:
  "failure_to_report ''USER_CANCELLED_REQUEST'' (Resolves conflict_response)
   \<and> (let (res, w') = createAsyncThunkWithCancelToken production_env sample_Strings
                      (\<lambda>messages. messages) (\<lambda>u paths. u) ''USER_CANCELLED_REQUEST''
                      ''users/create'' Method_POST ''/users'' None (Some sample_payload)
                      False (Resolves conflict_response) empty_world
       in res = Rejected ''Email already registered'' \<and> length (sentry w') = 1)"
proof -
  have h1: "failure_to_report ''USER_CANCELLED_REQUEST'' (Resolves conflict_response)"
    by (simp add: failure_to_report_def conflict_response_def)
  have h2: "\<not> isDevelopment production_env"
    by (simp add: production_env_def AppEnvConst_def nullish_or_def)
  have val: "fst (createAsyncThunkWithCancelToken production_env sample_Strings
                      (\<lambda>messages. messages) (\<lambda>u paths. u) ''USER_CANCELLED_REQUEST''
                      ''users/create'' Method_POST ''/users'' None (Some sample_payload)
                      False (Resolves conflict_response) empty_world)
             = Rejected ''Email already registered''"
    by (simp add: thunk_fst_has handleError_def handleClientError_def sample_defs)
  have st: "sentry empty_world = []"
    by (simp add: empty_world_def)
  show ?thesis
    using h1 val
      failures_forwarded_unless_cancelled
        [OF h1 h2, of sample_Strings "\<lambda>messages. messages" "\<lambda>u paths. u"
           "''users/create''" Method_POST "''/users''" None "Some sample_payload" False
           empty_world]
    by (auto simp add: split_def Let_def st)
qed

text \<open>
  Not every failure is reported. Outside development mode, the response to a request that
  the user cancelled is not \<^verbatim>\<open>ok\<close>, and the crash-reporting service has received
  nothing when the thunk has finished; in development mode an exception is not reported
  either.
\<close>

theorem not_every_failure_forwarded_counterexample:
  "\<not> ok cancelled_response
   \<and> \<not> isDevelopment production_env
   \<and> sentry (snd (createAsyncThunkWithCancelToken production_env sample_Strings
        (\<lambda>messages. messages) (\<lambda>u paths. u) ''USER_CANCELLED_REQUEST''
        ''users/fetch'' Method_GET ''/users'' None None
        True (Resolves cancelled_response) empty_world)) = []
   \<and> isDevelopment development_env
   \<and> sentry (snd (createAsyncThunkWithCancelToken development_env sample_Strings
        (\<lambda>messages. messages) (\<lambda>u paths. u) ''USER_CANCELLED_REQUEST''
        ''users/fetch'' Method_GET ''/users'' None None
        False (Throws (Obj True True ''Network Error'')) empty_world)) = []"
  by (simp add: thunk_defs sample_defs)

text \<open>
  Claim C9. For a response whose original error carries the message
  \<^verbatim>\<open>USER_CANCELLED_REQUEST\<close>, \<^verbatim>\<open>processResponseAndCaptureInfo\<close> leaves the world as
  it is, in every mode, and so does the whole thunk whose request came to that response,
  as far as the crash-reporting service is concerned. Outside development mode a call of
  \<^verbatim>\<open>sentryCaptureAPIException\<close> always changes the world, so the function was not
  called. In development mode each of the three capture functions leaves the world as it
  is.
\<close>

theorem user_cancelled_not_reported:
  "(map_option error_message (originalError response) = Some USER_CANCELLED_REQUEST \<longrightarrow>
      processResponseAndCaptureInfo env Strings_APIError USER_CANCELLED_REQUEST response u w = w
      \<and> (instance_has method \<longrightarrow>
           sentry (snd (createAsyncThunkWithCancelToken env Strings_APIError getErrorResponse
                          formatString USER_CANCELLED_REQUEST typePrefix method u api payload
                          abort_fires (Resolves response) w)) = sentry w))
   \<and> (isDevelopment env \<longrightarrow>
        sentryCaptureAPIException env Strings_APIError endpoint r err w = w
        \<and> sentryCaptureMessage env JSON_stringify eventName rq obj w = w
        \<and> sentryCaptureException env e w = w)
   \<and> (\<not> isDevelopment env \<longrightarrow>
        sentryCaptureAPIException env Strings_APIError endpoint r err w \<noteq> w)"
proof -
  have grows: "sentryCaptureAPIException env Strings_APIError endpoint r err w \<noteq> w"
    if "\<not> isDevelopment env"
  proof
    assume "sentryCaptureAPIException env Strings_APIError endpoint r err w = w"
    then have "length (sentry (sentryCaptureAPIException env Strings_APIError endpoint r err w))
                 = length (sentry w)"
      by simp
    with that show False
      by (simp add: sentryCaptureAPIException_def Let_def)
  qed
  show ?thesis
    using grows
    by (auto simp add: processResponseAndCaptureInfo_def sentryCaptureAPIException_def
          sentryCaptureMessage_def sentryCaptureException_def thunk_sentry_has
          payloadCreator_settle_def Let_def)
qed

theorem user_cancelled_not_reported_witness:
  "map_option error_message (originalError cancelled_response) = Some ''USER_CANCELLED_REQUEST''
   \<and> processResponseAndCaptureInfo production_env sample_Strings ''USER_CANCELLED_REQUEST''
        cancelled_response ''/users'' empty_world = empty_world
   \<and> sentry (snd (createAsyncThunkWithCancelToken production_env sample_Strings
        (\<lambda>messages. messages) (\<lambda>u paths. u) ''USER_CANCELLED_REQUEST''
        ''users/fetch'' Method_GET ''/users'' None None
        True (Resolves cancelled_response) empty_world)) = sentry empty_world
   \<and> \<not> isDevelopment production_env
   \<and> sentryCaptureAPIException production_env sample_Strings (Some ''/users'') None
        (Str ''boom'') empty_world \<noteq> empty_world
   \<and> isDevelopment development_env
   \<and> sentryCaptureAPIException development_env sample_Strings (Some ''/users'') None
        (Str ''boom'') empty_world = empty_world
   \<and> sentryCaptureMessage development_env (\<lambda>kvs. ''{}'') ''login'' None None empty_world
        = empty_world
   \<and> sentryCaptureException development_env
        \<lparr>error_name = ''Error'', error_message = ''boom''\<rparr> empty_world = empty_world"
proof -
  have h1: "map_option error_message (originalError cancelled_response)
              = Some ''USER_CANCELLED_REQUEST''"
    by (simp add: cancelled_response_def)
  have h2: "\<not> isDevelopment production_env"
    by (simp add: production_env_def AppEnvConst_def nullish_or_def)
  have h3: "isDevelopment development_env"
    by (simp add: development_env_def AppEnvConst_def)
  show ?thesis
    using h1 h2 h3
      user_cancelled_not_reported
        [of cancelled_response "''USER_CANCELLED_REQUEST''" production_env sample_Strings
            "''/users''" empty_world Method_GET "\<lambda>messages. messages" "\<lambda>u paths. u"
            "''users/fetch''" None None True "Some ''/users''" None "Str ''boom''"
            "\<lambda>kvs. ''{}''" "''login''" None None
            "\<lparr>error_name = ''Error'', error_message = ''boom''\<rparr>"]
      user_cancelled_not_reported
        [of cancelled_response "''USER_CANCELLED_REQUEST''" development_env sample_Strings
            "''/users''" empty_world Method_GET "\<lambda>messages. messages" "\<lambda>u paths. u"
            "''users/fetch''" None None True "Some ''/users''" None "Str ''boom''"
            "\<lambda>kvs. ''{}''" "''login''" None None
            "\<lparr>error_name = ''Error'', error_message = ''boom''\<rparr>"]
    by simp
qed

section \<open>Build configuration and build scripts\<close>

text \<open>
  Claim C6. Each of the three environment variants gets its own application name and bundle
  identifier: \<^verbatim>\<open>development\<close> the \<^verbatim>\<open>.dev\<close> identifier, \<^verbatim>\<open>preview\<close> the
  \<^verbatim>\<open>.preview\<close> identifier and \<^verbatim>\<open>production\<close> the bare one; and whatever
  \<^verbatim>\<open>getEnvironmentConfig\<close> returns for the selected environment is what
  \<^verbatim>\<open>defineConfig\<close> puts into the application name, the iOS \<^verbatim>\<open>bundleIdentifier\<close> and
  the Android \<^verbatim>\<open>package\<close>.
\<close>

theorem environment_config_written_to_native:
  "getEnvironmentConfig (Some ''development'') =
     \<lparr>appName = ''withinstruction-dev'', bundleIdentifier = ''com.simform.withinstruction.dev''\<rparr>
   \<and> getEnvironmentConfig (Some ''preview'') =
     \<lparr>appName = ''withinstruction-preview'',
      bundleIdentifier = ''com.simform.withinstruction.preview''\<rparr>
   \<and> getEnvironmentConfig (Some ''production'') =
     \<lparr>appName = ''withinstruction'', bundleIdentifier = ''com.simform.withinstruction''\<rparr>
   \<and> name (defineConfig env expo_config) = appName (getEnvironmentConfig env)
   \<and> ios_bundleIdentifier (ios (defineConfig env expo_config)) =
       bundleIdentifier (getEnvironmentConfig env)
   \<and> package (android (defineConfig env expo_config)) =
       bundleIdentifier (getEnvironmentConfig env)"
  by (simp add: getEnvironmentConfig_def defineConfig_def Let_def)

text \<open>
  Claim C10. Every argument other than the strings \<^verbatim>\<open>development\<close> and \<^verbatim>\<open>preview\<close>,
  \<^verbatim>\<open>undefined\<close> included, gets the production name and the production bundle
  identifier, and no error is signalled: the function has no failure result at all.
\<close>

theorem unknown_environment_is_production:
  assumes "e \<noteq> Some ''development''" and "e \<noteq> Some ''preview''"
  shows "getEnvironmentConfig e =
           \<lparr>appName = ''withinstruction'', bundleIdentifier = ''com.simform.withinstruction''\<rparr>"
  using assms by (simp add: getEnvironmentConfig_def)

theorem unknown_environment_is_production_witness:
  "getEnvironmentConfig None =
     \<lparr>appName = ''withinstruction'', bundleIdentifier = ''com.simform.withinstruction''\<rparr>
   \<and> getEnvironmentConfig (Some '''') =
     \<lparr>appName = ''withinstruction'', bundleIdentifier = ''com.simform.withinstruction''\<rparr>
   \<and> getEnvironmentConfig (Some ''developmnet'') =
     \<lparr>appName = ''withinstruction'', bundleIdentifier = ''com.simform.withinstruction''\<rparr>"
  using unknown_environment_is_production [of None]
        unknown_environment_is_production [of "Some ''''"]
        unknown_environment_is_production [of "Some ''developmnet''"]
  by simp

text \<open>
  Claim C7, as the code has it. The environment script, given \<^verbatim>\<open>prod\<close>,
  \<^verbatim>\<open>preview\<close> or \<^verbatim>\<open>dev\<close> and the file that belongs to it, exits with status 0 and
  leaves that file's content in \<^verbatim>\<open>.env\<close>; given anything else it exits with status 1
  and copies nothing, an empty \<^verbatim>\<open>.env\<close> being created when there was none. The iOS
  build script exits with status 1 when it has no team ID. Otherwise the workspace, the
  scheme and the archive of its archive command are named by the base name followed by the
  environment, and the command gets the team ID, except that the environment
  \<^verbatim>\<open>Production\<close> (also the default) gives the bare base name and switches the export
  off.
\<close>

theorem build_scripts_behaviour:
  "(\<forall>f content. selected_env_file (positional args 1) = Some f \<and> fs f = Some content \<longrightarrow>
       fst (set_env args fs) = 0
       \<and> fst (snd (set_env args fs)) = fs(''.env'' \<mapsto> content))
   \<and> (selected_env_file (positional args 1) = None \<longrightarrow>
       fst (set_env args fs) = 1
       \<and> fst (snd (set_env args fs)) =
           (case fs ''.env'' of None \<Rightarrow> fs(''.env'' \<mapsto> []) | Some c \<Rightarrow> fs))
   \<and> (positional ios_args 2 = [] \<longrightarrow> ios_build_vars ios_args = Inl 1)
   \<and> (positional ios_args 2 \<noteq> [] \<longrightarrow>
       (\<exists>v. ios_build_vars ios_args = Inr v
          \<and> TEAM_ID v = positional ios_args 2
          \<and> ENVIRONMENT v =
              (if default_if_empty (positional ios_args 1) ''Production'' = ''Production''
               then [] else positional ios_args 1)
          \<and> ALLOW_EXPORT v =
              (if default_if_empty (positional ios_args 1) ''Production'' = ''Production''
               then ''false'' else default_if_empty (positional ios_args 3) ''false'')
          \<and> PROJECT_NAME v = ''withinstruction'' @ ENVIRONMENT v
          \<and> SCHEME_NAME v = ''withinstruction'' @ ENVIRONMENT v
          \<and> xcodebuild_archive v =
              [''xcodebuild'', ''archive'',
               ''-workspace'', ''withinstruction'' @ ENVIRONMENT v @ ''.xcworkspace'',
               ''-scheme'', ''withinstruction'' @ ENVIRONMENT v,
               ''-destination'', ''generic/platform=iOS'',
               ''-archivePath'', ''./ios/build/withinstruction'' @ ENVIRONMENT v @ ''.xcarchive'',
               ''-configuration'', ''Release'',
               ''CODE_SIGN_STYLE=Automatic'',
               ''DEVELOPMENT_TEAM='' @ positional ios_args 2,
               ''ARCHS=arm64'',
               ''-allowProvisioningUpdates'']))"
proof -
  have copy: "\<forall>f content. selected_env_file (positional args 1) = Some f \<and> fs f = Some content \<longrightarrow>
       fst (set_env args fs) = 0
       \<and> fst (snd (set_env args fs)) = fs(''.env'' \<mapsto> content)"
    using set_env_selected by blast
  have refuse: "selected_env_file (positional args 1) = None \<longrightarrow>
       fst (set_env args fs) = 1
       \<and> fst (snd (set_env args fs)) =
           (case fs ''.env'' of None \<Rightarrow> fs(''.env'' \<mapsto> []) | Some c \<Rightarrow> fs)"
    using set_env_unrecognized by blast
  show ?thesis
    using copy refuse ios_build_vars_no_team [of ios_args] ios_build_vars_team [of ios_args]
    by blast
qed

theorem build_scripts_behaviour_witness:
  "selected_env_file (positional [''prod''] 1) = Some ''.env.production''
   \<and> sample_files ''.env.production'' = Some ''API=https://api.example''
   \<and> fst (set_env [''prod''] sample_files) = 0
   \<and> fst (snd (set_env [''prod''] sample_files)) ''.env'' = Some ''API=https://api.example''
   \<and> positional [''Dev'', ''ABCDEFGHIJ'', ''true''] 2 \<noteq> []
   \<and> (\<exists>v. ios_build_vars [''Dev'', ''ABCDEFGHIJ'', ''true''] = Inr v
          \<and> SCHEME_NAME v = ''withinstructionDev'' \<and> ALLOW_EXPORT v = ''true''
          \<and> ''DEVELOPMENT_TEAM=ABCDEFGHIJ'' \<in> set (xcodebuild_archive v))
   \<and> selected_env_file (positional [''staging''] 1) = None
   \<and> fst (set_env [''staging''] sample_files) = 1
   \<and> positional [''Dev''] 2 = []
   \<and> ios_build_vars [''Dev''] = Inl 1"
proof -
  have h1: "selected_env_file (positional [''prod''] 1) = Some ''.env.production''"
    and h2: "sample_files ''.env.production'' = Some ''API=https://api.example''"
    and h3: "positional [''Dev'', ''ABCDEFGHIJ'', ''true''] 2 \<noteq> []"
    and h4: "selected_env_file (positional [''staging''] 1) = None"
    and h5: "positional [''Dev''] 2 = []"
    by (simp_all add: selected_env_file_def positional_def sample_files_def)
  have p1: "positional [''Dev'', ''ABCDEFGHIJ'', ''true''] (Suc 0) = ''Dev''"
    and p2: "positional [''Dev'', ''ABCDEFGHIJ'', ''true''] 2 = ''ABCDEFGHIJ''"
    and p3: "positional [''Dev'', ''ABCDEFGHIJ'', ''true''] 3 = ''true''"
    by (simp_all add: positional_def)
  show ?thesis
    using h1 h2 h3 h4 h5
      build_scripts_behaviour [of "[''prod'']" sample_files "[''Dev'', ''ABCDEFGHIJ'', ''true'']"]
      build_scripts_behaviour [of "[''staging'']" sample_files "[''Dev'']"]
    by (auto simp add: p1 p2 p3 default_if_empty_def)
qed

text \<open>
  The scripts do more than substitute and copy. The iOS script, told to build
  \<^verbatim>\<open>Production\<close> with the export on, builds the scheme without the environment in its
  name and with the export off; without a team ID it stops with status 1 before any tool
  runs. The environment script, given an argument it does not know in a directory without
  \<^verbatim>\<open>.env\<close>, exits with status 1 and leaves a new, empty \<^verbatim>\<open>.env\<close> behind.
\<close>

theorem build_scripts_not_only_substitution_counterexample:
  "ios_build_vars [''Production'', ''ABCDEFGHIJ'', ''true''] =
     Inr \<lparr>ENVIRONMENT = [], TEAM_ID = ''ABCDEFGHIJ'', ALLOW_EXPORT = ''false'',
          PROJECT_NAME = ''withinstruction'', SCHEME_NAME = ''withinstruction'',
          ARCHIVE_PATH = ''./ios/build/withinstruction.xcarchive'',
          EXPORT_PATH = ''./ios/build'',
          EXPORT_OPTIONS_PLIST = ''./ios/ExportOptions.plist''\<rparr>
   \<and> ios_build_vars [''Dev''] = Inl 1
   \<and> set_env [''staging''] Map.empty =
       (1, [''.env'' \<mapsto> []],
        [''.env file does not exist. Creating .env file...'',
         ''Invalid environment specified. Please use 'production', 'preview', or 'development'.''])"
  by (simp add: ios_build_vars_def set_env_def touch_def default_if_empty_def positional_def
        Let_def)

end
